theory Spec2Isabelle
  imports Main "HOL-Library.Sublist" "HOL-Library.Char_ord" "HOL-Library.List_Lexorder"
begin

section \<open>Python string primitives used by the bot\<close>

text \<open>
  Strings are modelled as lists of 8-bit characters. \<open>ascii_lower\<close> and \<open>str_upper\<close>
  convert the ASCII letters and leave every other character as it is, which is what
  \<^verbatim>\<open>str.lower\<close> and \<^verbatim>\<open>str.upper\<close> do on ASCII text. \<open>ascii_lower\<close> is not Python's
  \<^verbatim>\<open>str.lower\<close> on other text: the classifier takes that function from the library
  (record \<open>pylib\<close> below), and \<open>ascii_lower\<close> is used for the answers of the library on
  ASCII strings and for the test of a file name's ASCII extension.
\<close>

definition lower_char :: "char \<Rightarrow> char" where
  "lower_char c =
     (let n = (of_char c :: nat) in if 65 \<le> n \<and> n \<le> 90 then char_of (n + 32) else c)"

definition upper_char :: "char \<Rightarrow> char" where
  "upper_char c =
     (let n = (of_char c :: nat) in if 97 \<le> n \<and> n \<le> 122 then char_of (n - 32) else c)"

definition ascii_lower :: "string \<Rightarrow> string" where
  "ascii_lower s = map lower_char s"

definition str_upper :: "string \<Rightarrow> string" where
  "str_upper s = map upper_char s"

text \<open>
  \<^verbatim>\<open>s.replace(old, '')\<close>: every non-overlapping occurrence of \<open>old\<close>, scanning from the
  left, is removed. With an empty \<open>old\<close> the string is returned as it is.
\<close>

function str_remove :: "string \<Rightarrow> string \<Rightarrow> string" where
  "str_remove old [] = []"
| "str_remove old (c # cs) =
     (if old \<noteq> [] \<and> prefix old (c # cs)
      then str_remove old (drop (length old) (c # cs))
      else c # str_remove old cs)"
  by pat_completeness auto
termination
  by (relation "measure (\<lambda>(old, s). length s)") (auto simp: neq_Nil_conv)

text \<open>
  \<^verbatim>\<open>s.strip()\<close> on the ASCII characters that Python counts as white space: the
  space, the controls 9 to 13 and the separators 28 to 31.
\<close>

definition is_space :: "char \<Rightarrow> bool" where
  "is_space c =
     (let n = (of_char c :: nat) in n = 32 \<or> (9 \<le> n \<and> n \<le> 13) \<or> (28 \<le> n \<and> n \<le> 31))"

definition str_strip :: "string \<Rightarrow> string" where
  "str_strip s = rev (dropWhile is_space (rev (dropWhile is_space s)))"

section \<open>Platform classifier (\<^verbatim>\<open>MediaDownloader.get_platform\<close>)\<close>

text \<open>The table of \<^verbatim>\<open>self.supported_platforms\<close>, in the dictionary's insertion order.\<close>

definition supported_platforms :: "(string \<times> string) list" where
  "supported_platforms =
     [(''youtube.com'', ''YouTube''),
      (''youtu.be'', ''YouTube''),
      (''twitter.com'', ''Twitter/X''),
      (''x.com'', ''Twitter/X''),
      (''tiktok.com'', ''TikTok''),
      (''newgrounds.com'', ''Newgrounds'')]"

text \<open>
  \<^verbatim>\<open>urlparse\<close> and \<^verbatim>\<open>str.lower\<close> belong to the standard library, not to the bot. The
  classifier is modelled over what the library answers: the network location that
  \<^verbatim>\<open>urlparse(url).netloc\<close> returns, or the \<^verbatim>\<open>ValueError\<close> it raises (it does so, for
  instance, on an unbalanced bracket in the network location), and the lower-cased copy
  that \<^verbatim>\<open>str.lower\<close> returns. A string stands for the UTF-8 bytes of the Python string;
  the substring test and the replacement below have ASCII patterns, for which the test on
  bytes and the test on code points agree.
\<close>

datatype py_error = ValueError

record pylib =
  lib_urlparse_netloc :: "string \<Rightarrow> py_error + string"
  lib_lower :: "string \<Rightarrow> string"

text \<open>The loop over the table: the first entry whose key occurs in the domain wins.\<close>

fun lookup_platform :: "(string \<times> string) list \<Rightarrow> string \<Rightarrow> string option" where
  "lookup_platform [] domain = None"
| "lookup_platform ((platform_domain, platform_name) # rest) domain =
     (if sublist platform_domain domain then Some platform_name
      else lookup_platform rest domain)"

text \<open>
  \<^verbatim>\<open>get_platform\<close>: the URL is parsed (an exception of the parser leaves the function),
  the domain is \<^verbatim>\<open>parsed.netloc.lower().replace('www.', '')\<close>, and the table is searched.
\<close>

definition get_platform :: "pylib \<Rightarrow> string \<Rightarrow> py_error + string option" where
  "get_platform L u =
     (case lib_urlparse_netloc L u of
        Inl err \<Rightarrow> Inl err
      | Inr netloc \<Rightarrow>
          Inr (lookup_platform supported_platforms (str_remove ''www.'' (lib_lower L netloc))))"

text \<open>
  The normalisation as the specification words it: lower case, then one leading
  \<open>www.\<close> label stripped; and the table searched with it. They are used only to compare
  with \<open>get_platform\<close>.
\<close>

definition spec_strip_leading_www :: "string \<Rightarrow> string" where
  "spec_strip_leading_www h = (if prefix ''www.'' h then drop 4 h else h)"

definition spec_host_norm :: "pylib \<Rightarrow> string \<Rightarrow> string" where
  "spec_host_norm L h = spec_strip_leading_www (lib_lower L h)"

definition spec_classify :: "pylib \<Rightarrow> string \<Rightarrow> string option" where
  "spec_classify L netloc = lookup_platform supported_platforms (spec_host_norm L netloc)"

section \<open>Format ranking (\<^verbatim>\<open>TelegramBot.create_quality_keyboard\<close>)\<close>

text \<open>
  One entry of the extractor's \<^verbatim>\<open>formats\<close> list. The entries are dictionaries read
  with \<^verbatim>\<open>f.get(key)\<close>; a field is \<open>None\<close> when the key is absent or holds Python's
  \<^verbatim>\<open>None\<close>. \<^verbatim>\<open>format_id\<close> is read with \<^verbatim>\<open>f['format_id']\<close> and is always there.
\<close>

record format =
  format_id :: string
  acodec :: "string option"
  vcodec :: "string option"
  abr :: "int option"
  ext :: "string option"
  filesize :: "int option"
  filesize_approx :: "int option"
  height :: "int option"

record info =
  title :: "string option"
  duration :: "int option"
  formats :: "format list"

definition MAX_FILE_SIZE :: int where
  "MAX_FILE_SIZE = 2 * 1024 * 1024 * 1024"

text \<open>
  \<^verbatim>\<open>filesize = f.get('filesize') or f.get('filesize_approx', 0)\<close>: the first operand if
  it is truthy (a number other than zero), else the second. A missing value reads as 0,
  which is as falsy as \<^verbatim>\<open>None\<close> in the tests that follow.
\<close>

definition or_zero :: "int option \<Rightarrow> int" where
  "or_zero v = (case v of None \<Rightarrow> 0 | Some n \<Rightarrow> n)"

definition filesize_of :: "format \<Rightarrow> int" where
  "filesize_of f = (if or_zero (filesize f) \<noteq> 0 then or_zero (filesize f)
                    else or_zero (filesize_approx f))"

definition ext_of :: "format \<Rightarrow> string" where
  "ext_of f = (case ext f of None \<Rightarrow> ''unknown'' | Some e \<Rightarrow> e)"

text \<open>
  The button texts are formatted strings; the model keeps the values that are formatted:
  for audio the upper-cased extension, the \<^verbatim>\<open>abr\<close> value (\<open>None\<close> prints as
  \<^verbatim>\<open>Unknown\<close>) and the size in bytes (shown in MB with one decimal); for video the
  height, the upper-cased extension and the size in bytes. Sizes, heights and bit
  rates are integers. The fixed button texts are given without their pictographs.
\<close>

datatype label =
    AudioLabel string "int option" int
  | VideoLabel int string int
  | Plain string

fun label_size :: "label \<Rightarrow> int option" where
  "label_size (AudioLabel e q s) = Some s"
| "label_size (VideoLabel h e s) = Some s"
| "label_size (Plain t) = None"

fun label_bitrate :: "label \<Rightarrow> int option" where
  "label_bitrate (AudioLabel e q s) = q"
| "label_bitrate (VideoLabel h e s) = None"
| "label_bitrate (Plain t) = None"

fun label_height :: "label \<Rightarrow> int option" where
  "label_height (AudioLabel e q s) = None"
| "label_height (VideoLabel h e s) = Some h"
| "label_height (Plain t) = None"

record button =
  button_text :: label
  callback_data :: string

type_synonym keyboard = "button list list"

text \<open>The two filters of the loops over \<^verbatim>\<open>formats\<close>, and the tuples they append.\<close>

definition audio_ok :: "format \<Rightarrow> bool" where
  "audio_ok f \<longleftrightarrow>
     (acodec f \<noteq> Some ''none'' \<and> vcodec f = Some ''none'')
     \<and> (filesize_of f \<noteq> 0 \<and> filesize_of f \<le> MAX_FILE_SIZE)"

definition audio_entry :: "format \<Rightarrow> label \<times> string" where
  "audio_entry f = (AudioLabel (str_upper (ext_of f)) (abr f) (filesize_of f), format_id f)"

definition video_ok :: "format \<Rightarrow> bool" where
  "video_ok f \<longleftrightarrow>
     vcodec f \<noteq> Some ''none''
     \<and> (filesize_of f \<noteq> 0 \<and> filesize_of f \<le> MAX_FILE_SIZE \<and> or_zero (height f) \<noteq> 0)"

definition video_entry :: "format \<Rightarrow> label \<times> string \<times> int" where
  "video_entry f =
     (VideoLabel (or_zero (height f)) (str_upper (ext_of f)) (filesize_of f),
      format_id f, or_zero (height f))"

text \<open>
  \<^verbatim>\<open>xs.sort(key=k, reverse=True)\<close>: a stable sort in descending order of the key, that
  is, the list reversed, sorted stably in ascending order, and reversed again.
\<close>

definition sort_desc :: "('a \<Rightarrow> 'k::linorder) \<Rightarrow> 'a list \<Rightarrow> 'a list" where
  "sort_desc k xs = rev (sort_key k (rev xs))"

text \<open>
  The audio list is sorted with \<^verbatim>\<open>key=lambda x: x[1]\<close>, the second component of the
  tuple, which is the format identifier (strings compare lexicographically by
  character code); the video list with \<^verbatim>\<open>key=lambda x: x[2]\<close>, the height.
\<close>

definition audio_candidates :: "info \<Rightarrow> (label \<times> string) list" where
  "audio_candidates i =
     take 5 (sort_desc snd (map audio_entry (filter audio_ok (formats i))))"

definition video_candidates :: "info \<Rightarrow> (label \<times> string \<times> int) list" where
  "video_candidates i =
     take 5 (sort_desc (\<lambda>x. snd (snd x)) (map video_entry (filter video_ok (formats i))))"

definition download_button :: "label \<Rightarrow> string \<Rightarrow> button" where
  "download_button t fid = \<lparr>button_text = t, callback_data = ''download_'' @ fid\<rparr>"

definition create_quality_keyboard :: "info \<Rightarrow> string \<Rightarrow> keyboard" where
  "create_quality_keyboard i category =
     (if category = ''audio''
      then map (\<lambda>(t, fid). [download_button t fid]) (audio_candidates i)
      else if category = ''video''
      then map (\<lambda>(t, fid, h). [download_button t fid]) (video_candidates i)
      else [])
     @ [[\<lparr>button_text = Plain ''Back'', callback_data = ''back''\<rparr>,
         \<lparr>button_text = Plain ''Cancel'', callback_data = ''cancel''\<rparr>]]"

definition create_format_keyboard :: "info \<Rightarrow> keyboard" where
  "create_format_keyboard i =
     [[\<lparr>button_text = Plain ''Audio Only'', callback_data = ''category_audio''\<rparr>],
      [\<lparr>button_text = Plain ''Video'', callback_data = ''category_video''\<rparr>],
      [\<lparr>button_text = Plain ''Cancel'', callback_data = ''cancel''\<rparr>]]"

text \<open>The candidate menu of a category: the download rows of the keyboard.\<close>

definition candidate_menu :: "info \<Rightarrow> string \<Rightarrow> button list" where
  "candidate_menu i category =
     filter (\<lambda>b. prefix ''download_'' (callback_data b))
       (concat (create_quality_keyboard i category))"

section \<open>Sessions, the channel and the handlers\<close>

text \<open>
  A session is the dictionary stored in \<^verbatim>\<open>self.user_sessions[user_id]\<close>: the URL, the
  extracted metadata and the platform name. It has no other entry; in particular it does
  not record which menu was shown last.
\<close>

record session =
  url :: string
  session_info :: info
  platform :: string

text \<open>
  The state the handlers act on: the session table and the temporary directories that
  exist on disk.
\<close>

record world =
  user_sessions :: "int \<rightharpoonup> session"
  tmp_dirs :: "string set"

text \<open>The fixed messages of the bot, with the values that are formatted into them.\<close>

datatype msg =
    MsgUnsupported
  | MsgProcessing string
  | MsgExtractFailed
  | MsgMenu string string "(int \<times> int) option" keyboard
  | MsgUrlError
  | MsgCancelled
  | MsgNothingToCancel
  | MsgSessionExpired
  | MsgChooseFormat string keyboard
  | MsgSelectQuality string string keyboard
  | MsgDownloading
  | MsgDownloadFailed
  | MsgTooLarge int
  | MsgUploading
  | MsgCompleted

text \<open>What a handler does to the outside, in the order in which it does it.\<close>

datatype event =
    Answer
  | ReplyText msg
  | EditText msg
  | StoreSession int
  | DelSession int
  | MkDTemp string
  | DownloadMedia string string string
  | GetSize string
  | OpenFile string
  | ReplyAudio string string string
  | ReplyVideo string string string
  | RmTree string

text \<open>
  The places where a handler awaits the channel. Each is reached at most once in one run
  of a handler, and each may raise.
\<close>

datatype site =
    AnswerCallback
  | SendUnsupported
  | SendProcessing
  | SendCancelled
  | SendNothingToCancel
  | EditExtractFailed
  | EditMenu
  | EditUrlError
  | EditCancelled
  | EditExpired
  | EditBack
  | EditCategory
  | EditDownloading
  | EditNoFile
  | EditTooLarge
  | EditUploading
  | SendFile
  | EditCompleted
  | EditFailed

text \<open>
  What the outside answers during one run of a handler: whether a channel call raises,
  the result of \<^verbatim>\<open>get_video_info\<close> (\<open>None\<close> for the empty dictionary it returns on an
  error), of \<^verbatim>\<open>tempfile.mkdtemp\<close> (\<open>None\<close> when it raises), of \<^verbatim>\<open>download_media\<close>
  (which catches its errors and returns \<^verbatim>\<open>None\<close>), of \<^verbatim>\<open>os.path.exists(filepath)\<close>,
  of \<^verbatim>\<open>os.path.getsize\<close> (\<open>None\<close> when it raises) and of \<^verbatim>\<open>open\<close>.
\<close>

record env =
  raises :: "site \<Rightarrow> bool"
  video_info :: "info option"
  mkdtemp :: "string option"
  download_media :: "string option"
  path_exists :: bool
  getsize :: "int option"
  open_ok :: bool

record outcome =
  trace :: "event list"
  raised :: bool
  final :: world

text \<open>
  A piece of straight-line code is its events and whether it ended by raising; \<open>seq\<close>
  runs the second piece only if the first did not raise.
\<close>

definition call :: "env \<Rightarrow> site \<Rightarrow> event \<Rightarrow> event list \<times> bool" where
  "call e s ev = ([ev], raises e s)"

definition seq :: "event list \<times> bool \<Rightarrow> event list \<times> bool \<Rightarrow> event list \<times> bool" where
  "seq a b = (if snd a then a else (fst a @ fst b, snd b))"

definition title_or :: "string \<Rightarrow> info \<Rightarrow> string" where
  "title_or d i = (case title i of None \<Rightarrow> d | Some t \<Rightarrow> t)"

definition title50 :: "info \<Rightarrow> string" where
  "title50 i = take 50 (title_or ''Unknown Title'' i)"

definition duration_str :: "info \<Rightarrow> (int \<times> int) option" where
  "duration_str i =
     (let d = or_zero (duration i) in if d \<noteq> 0 then Some (d div 60, d mod 60) else None)"

subsection \<open>\<^verbatim>\<open>cancel_operation\<close> and \<^verbatim>\<open>handle_url\<close>\<close>

definition cancel_operation :: "env \<Rightarrow> world \<Rightarrow> int \<Rightarrow> outcome" where
  "cancel_operation e w user_id =
     (if user_id \<in> dom (user_sessions w)
      then \<lparr>trace = [DelSession user_id, ReplyText MsgCancelled],
            raised = raises e SendCancelled,
            final = w\<lparr>user_sessions := (user_sessions w)(user_id := None)\<rparr>\<rparr>
      else \<lparr>trace = [ReplyText MsgNothingToCancel],
            raised = raises e SendNothingToCancel,
            final = w\<rparr>)"

text \<open>
  The \<^verbatim>\<open>except Exception\<close> clause of \<^verbatim>\<open>handle_url\<close>. The call of \<^verbatim>\<open>get_platform\<close>
  stands before the \<^verbatim>\<open>try\<close>, so an exception of the parser leaves the handler.
\<close>

definition url_except :: "env \<Rightarrow> event list \<times> bool \<Rightarrow> event list \<times> bool" where
  "url_except e r =
     (if snd r then (fst r @ [EditText MsgUrlError], raises e EditUrlError) else r)"

definition handle_url :: "pylib \<Rightarrow> env \<Rightarrow> world \<Rightarrow> int \<Rightarrow> string \<Rightarrow> outcome" where
  "handle_url L e w user_id message_text =
     (let u = str_strip message_text in
      case get_platform L u of
        Inl err \<Rightarrow> \<lparr>trace = [], raised = True, final = w\<rparr>
      | Inr None \<Rightarrow>
          \<lparr>trace = [ReplyText MsgUnsupported], raised = raises e SendUnsupported, final = w\<rparr>
      | Inr (Some p) \<Rightarrow>
          if p = [] then
            \<lparr>trace = [ReplyText MsgUnsupported], raised = raises e SendUnsupported, final = w\<rparr>
          else if raises e SendProcessing then
            \<lparr>trace = [ReplyText (MsgProcessing p)], raised = True, final = w\<rparr>
          else
            (case video_info e of
               None \<Rightarrow>
                 (let r = url_except e (call e EditExtractFailed (EditText MsgExtractFailed))
                  in \<lparr>trace = ReplyText (MsgProcessing p) # fst r, raised = snd r, final = w\<rparr>)
             | Some i \<Rightarrow>
                 (let r = url_except e
                            (seq ([StoreSession user_id], False)
                               (call e EditMenu
                                  (EditText (MsgMenu (title50 i) p (duration_str i)
                                               (create_format_keyboard i)))))
                  in \<lparr>trace = ReplyText (MsgProcessing p) # fst r, raised = snd r,
                      final = w\<lparr>user_sessions :=
                                  (user_sessions w)(user_id \<mapsto>
                                     \<lparr>url = u, session_info = i, platform = p\<rparr>)\<rparr>\<rparr>)))"

subsection \<open>\<^verbatim>\<open>download_and_send\<close>\<close>

text \<open>
  \<^verbatim>\<open>filepath.lower().endswith(('.mp3', '.m4a', '.wav', '.flac'))\<close>. The four suffixes
  are ASCII and hold neither \<open>i\<close> nor \<open>k\<close>, the only ASCII letters that \<^verbatim>\<open>str.lower\<close>
  produces from characters outside ASCII, so lower-casing the ASCII letters decides
  the test.
\<close>

definition is_audio_file :: "string \<Rightarrow> bool" where
  "is_audio_file filepath =
     (let l = ascii_lower filepath in
        suffix ''.mp3'' l \<or> suffix ''.m4a'' l \<or> suffix ''.wav'' l \<or> suffix ''.flac'' l)"

text \<open>The body of the \<^verbatim>\<open>try\<close> block.\<close>

definition download_body :: "env \<Rightarrow> session \<Rightarrow> string \<Rightarrow> string \<Rightarrow> event list \<times> bool" where
  "download_body e s fid temp_dir =
     seq ([DownloadMedia (url s) fid temp_dir], False)
       (case download_media e of
          None \<Rightarrow> call e EditNoFile (EditText MsgDownloadFailed)
        | Some filepath \<Rightarrow>
            if filepath = [] \<or> \<not> path_exists e
            then call e EditNoFile (EditText MsgDownloadFailed)
            else (case getsize e of
                    None \<Rightarrow> ([GetSize filepath], True)
                  | Some file_size \<Rightarrow>
                      seq ([GetSize filepath], False)
                        (if file_size > MAX_FILE_SIZE
                         then call e EditTooLarge (EditText (MsgTooLarge file_size))
                         else seq (call e EditUploading (EditText MsgUploading))
                               (seq ([OpenFile filepath], \<not> open_ok e)
                                 (seq (call e SendFile
                                        (if is_audio_file filepath
                                         then ReplyAudio filepath
                                                (title_or ''download'' (session_info s)) (platform s)
                                         else ReplyVideo filepath
                                                (title_or ''download'' (session_info s)) (platform s)))
                                      (call e EditCompleted (EditText MsgCompleted)))))))"

text \<open>The \<^verbatim>\<open>except Exception\<close> clause: the failure message, which may raise in turn.\<close>

definition download_except :: "env \<Rightarrow> event list \<times> bool \<Rightarrow> event list \<times> bool" where
  "download_except e r =
     (if snd r then (fst r @ [EditText MsgDownloadFailed], raises e EditFailed) else r)"

text \<open>
  The \<^verbatim>\<open>finally\<close> clause: the directory is removed if it exists, then the session of
  \<^verbatim>\<open>query.from_user.id\<close> is deleted if there is one. \<^verbatim>\<open>shutil.rmtree\<close> is taken to
  remove the directory it is given; the user of the query is the user of the update.
\<close>

definition cleanup_temp :: "string \<Rightarrow> world \<Rightarrow> event list \<times> world" where
  "cleanup_temp temp_dir w =
     (if temp_dir \<in> tmp_dirs w
      then ([RmTree temp_dir], w\<lparr>tmp_dirs := tmp_dirs w - {temp_dir}\<rparr>)
      else ([], w))"

definition clear_session :: "int \<Rightarrow> world \<Rightarrow> event list \<times> world" where
  "clear_session user_id w =
     (if user_id \<in> dom (user_sessions w)
      then ([DelSession user_id], w\<lparr>user_sessions := (user_sessions w)(user_id := None)\<rparr>)
      else ([], w))"

definition finally_block :: "int \<Rightarrow> string \<Rightarrow> world \<Rightarrow> event list \<times> world" where
  "finally_block user_id temp_dir w =
     (let c = cleanup_temp temp_dir w; d = clear_session user_id (snd c)
      in (fst c @ fst d, snd d))"

definition download_and_send :: "env \<Rightarrow> world \<Rightarrow> int \<Rightarrow> session \<Rightarrow> string \<Rightarrow> outcome" where
  "download_and_send e w user_id s fid =
     (if raises e EditDownloading
      then \<lparr>trace = [EditText MsgDownloading], raised = True, final = w\<rparr>
      else case mkdtemp e of
             None \<Rightarrow> \<lparr>trace = [EditText MsgDownloading], raised = True, final = w\<rparr>
           | Some temp_dir \<Rightarrow>
               (let r = download_except e (download_body e s fid temp_dir);
                    f = finally_block user_id temp_dir
                          (w\<lparr>tmp_dirs := insert temp_dir (tmp_dirs w)\<rparr>)
                in \<lparr>trace = [EditText MsgDownloading, MkDTemp temp_dir] @ fst r @ fst f,
                    raised = snd r,
                    final = snd f\<rparr>))"

subsection \<open>\<^verbatim>\<open>handle_callback\<close>\<close>

definition after_answer :: "outcome \<Rightarrow> outcome" where
  "after_answer r = r\<lparr>trace := Answer # trace r\<rparr>"

definition handle_callback :: "env \<Rightarrow> world \<Rightarrow> int \<Rightarrow> string \<Rightarrow> outcome" where
  "handle_callback e w user_id data =
     (if raises e AnswerCallback
      then \<lparr>trace = [Answer], raised = True, final = w\<rparr>
      else if data = ''cancel''
      then (let d = clear_session user_id w
            in \<lparr>trace = Answer # fst d @ [EditText MsgCancelled],
                raised = raises e EditCancelled,
                final = snd d\<rparr>)
      else case user_sessions w user_id of
             None \<Rightarrow>
               \<lparr>trace = [Answer, EditText MsgSessionExpired],
                raised = raises e EditExpired,
                final = w\<rparr>
           | Some s \<Rightarrow>
               if data = ''back''
               then \<lparr>trace = [Answer,
                               EditText (MsgChooseFormat (title50 (session_info s))
                                           (create_format_keyboard (session_info s)))],
                     raised = raises e EditBack,
                     final = w\<rparr>
               else if prefix ''category_'' data
               then (let category = str_remove ''category_'' data
                     in \<lparr>trace = [Answer,
                                    EditText (MsgSelectQuality (title50 (session_info s))
                                       (if category = ''audio'' then ''Audio'' else ''Video'')
                                       (create_quality_keyboard (session_info s) category))],
                         raised = raises e EditCategory,
                         final = w\<rparr>)
               else if prefix ''download_'' data
               then after_answer
                      (download_and_send e w user_id s (str_remove ''download_'' data))
               else \<lparr>trace = [Answer], raised = False, final = w\<rparr>)"

section \<open>Concrete inputs\<close>

text \<open>
  Six audio-only encodings with the bit rates 128, 320, 64, 256, 192, 96 and the format
  identifiers 1 to 6 in that order, each of 1000000 bytes.
\<close>

definition audio_fmt :: "string \<Rightarrow> int \<Rightarrow> format" where
  "audio_fmt fid kbps =
     \<lparr>format_id = fid, acodec = Some ''mp4a'', vcodec = Some ''none'', abr = Some kbps,
      ext = Some ''m4a'', filesize = Some 1000000, filesize_approx = None, height = None\<rparr>"

definition six_bitrates :: info where
  "six_bitrates =
     \<lparr>title = Some ''Clip'', duration = Some 61,
      formats = [audio_fmt ''1'' 128, audio_fmt ''2'' 320, audio_fmt ''3'' 64,
                 audio_fmt ''4'' 256, audio_fmt ''5'' 192, audio_fmt ''6'' 96]\<rparr>"

text \<open>
  Video encodings: one of 720 lines and 50 MiB, one of 1080 lines without any size, one
  with a size but no height, and one of 360 lines whose size is only approximate.
\<close>

definition video_fmt :: "string \<Rightarrow> int option \<Rightarrow> int option \<Rightarrow> int option \<Rightarrow> format" where
  "video_fmt fid h sz approx =
     \<lparr>format_id = fid, acodec = Some ''mp4a'', vcodec = Some ''avc1'', abr = None,
      ext = Some ''mp4'', filesize = sz, filesize_approx = approx, height = h\<rparr>"

definition mixed_videos :: info where
  "mixed_videos =
     \<lparr>title = Some ''Clip'', duration = Some 61,
      formats = [video_fmt ''22'' (Some 720) (Some 52428800) None,
                 video_fmt ''37'' (Some 1080) None None,
                 video_fmt ''hls'' None (Some 4096) None,
                 video_fmt ''18'' (Some 360) None (Some 2048)]\<rparr>"

definition clip_session :: session where
  "clip_session = \<lparr>url = ''https://youtu.be/abc'', session_info = mixed_videos,
                    platform = ''YouTube''\<rparr>"

text \<open>No session and no directory; and user 7 with a session.\<close>

definition empty_world :: world where
  "empty_world = \<lparr>user_sessions = Map.empty, tmp_dirs = {}\<rparr>"

definition world7 :: world where
  "world7 = \<lparr>user_sessions = [7 \<mapsto> clip_session], tmp_dirs = {}\<rparr>"

text \<open>
  An outside where nothing raises: the metadata is \<open>mixed_videos\<close>, the download gives a
  file of 1000 bytes. In \<open>oversize_env\<close> the file is one byte above the maximum, and in
  \<open>failing_env\<close> the delivery raises.
\<close>

definition quiet_env :: env where
  "quiet_env =
     \<lparr>raises = (\<lambda>s. False), video_info = Some mixed_videos, mkdtemp = Some ''/tmp/tmpa'',
      download_media = Some ''/tmp/tmpa/Clip.mp4'', path_exists = True,
      getsize = Some 1000, open_ok = True\<rparr>"

definition oversize_env :: env where
  "oversize_env = quiet_env\<lparr>getsize := Some (MAX_FILE_SIZE + 1)\<rparr>"

definition failing_env :: env where
  "failing_env = quiet_env\<lparr>raises := (\<lambda>s. s = SendFile)\<rparr>"

text \<open>
  A library given by a table of answers: the network locations that \<^verbatim>\<open>urlparse\<close>
  returns for the URLs of the examples (it raises on the last one, whose bracket is not
  closed), and lower-casing as it is on ASCII strings. Outside the table the network
  location is taken to be empty; the examples use tabulated URLs only.
\<close>

definition example_netlocs :: "(string \<times> (py_error + string)) list" where
  "example_netlocs =
     [(''https://www.youtu.be/abc'', Inr ''www.youtu.be''),
      (''https://youtu.be/abc'', Inr ''youtu.be''),
      (''https://vimeo.com/x'', Inr ''vimeo.com''),
      (''https://x.www.com/a'', Inr ''x.www.com''),
      (''https://X.www.COM/a'', Inr ''X.www.COM''),
      (''https://[youtube.com/x'', Inl ValueError)]"

definition example_lib :: pylib where
  "example_lib =
     \<lparr>lib_urlparse_netloc =
        (\<lambda>u. case map_of example_netlocs u of None \<Rightarrow> Inr [] | Some r \<Rightarrow> r),
      lib_lower = ascii_lower\<rparr>"

section \<open>Properties of the ranking and of the classifier\<close>

lemma sort_desc_set: "set (sort_desc k xs) = set xs"
  by (simp add: sort_desc_def)

lemma sort_desc_length: "length (sort_desc k xs) = length xs"
  by (simp add: sort_desc_def)

lemma sort_desc_sorted: "sorted_wrt (\<lambda>a b. k b \<le> k a) (sort_desc k xs)"
proof -
  have "sorted (map k (sort_key k (rev xs)))" by simp
  then have "sorted_wrt (\<lambda>a b. k a \<le> k b) (sort_key k (rev xs))"
    by (simp add: sorted_map)
  then show ?thesis
    unfolding sort_desc_def by (simp add: sorted_wrt_rev)
qed

lemma video_candidates_sorted:
  "sorted_wrt (\<lambda>a b. snd (snd b) \<le> snd (snd a)) (video_candidates i)"
  unfolding video_candidates_def
  by (rule sorted_wrt_take) (rule sort_desc_sorted)

lemma download_prefix: "prefix ''download_'' (callback_data (download_button t fid))"
  by (simp add: download_button_def)

lemma candidate_menu_audio:
  "candidate_menu i ''audio'' = map (\<lambda>(t, fid). download_button t fid) (audio_candidates i)"
proof -
  have "filter (\<lambda>b. prefix ''download_'' (callback_data b))
          (concat (map (\<lambda>(t, fid). [download_button t fid]) xs))
        = map (\<lambda>(t, fid). download_button t fid) xs" for xs :: "(label \<times> string) list"
    by (induction xs) (auto simp: download_button_def)
  then show ?thesis
    by (simp add: candidate_menu_def create_quality_keyboard_def)
qed

lemma candidate_menu_video:
  "candidate_menu i ''video'' = map (\<lambda>(t, fid, h). download_button t fid) (video_candidates i)"
proof -
  have "filter (\<lambda>b. prefix ''download_'' (callback_data b))
          (concat (map (\<lambda>(t, fid, h). [download_button t fid]) xs))
        = map (\<lambda>(t, fid, h). download_button t fid) xs" for xs :: "(label \<times> string \<times> int) list"
    by (induction xs) (auto simp: download_button_def)
  then show ?thesis
    by (simp add: candidate_menu_def create_quality_keyboard_def)
qed

lemma candidate_menu_other:
  "category \<noteq> ''audio'' \<Longrightarrow> category \<noteq> ''video'' \<Longrightarrow> candidate_menu i category = []"
  by (simp add: candidate_menu_def create_quality_keyboard_def)

lemma audio_candidates_source:
  "c \<in> set (audio_candidates i) \<Longrightarrow> \<exists>f \<in> set (formats i). audio_ok f \<and> c = audio_entry f"
  unfolding audio_candidates_def
  by (auto dest!: in_set_takeD simp: sort_desc_set)

lemma video_candidates_source:
  "c \<in> set (video_candidates i) \<Longrightarrow> \<exists>f \<in> set (formats i). video_ok f \<and> c = video_entry f"
  unfolding video_candidates_def
  by (auto dest!: in_set_takeD simp: sort_desc_set)

lemma candidate_menu_source:
  assumes "b \<in> set (candidate_menu i category)"
  shows "\<exists>f \<in> set (formats i).
           callback_data b = ''download_'' @ format_id f
         \<and> filesize_of f \<noteq> 0 \<and> filesize_of f \<le> MAX_FILE_SIZE
         \<and> ((category = ''audio'' \<and> audio_ok f \<and> button_text b = fst (audio_entry f))
            \<or> (category = ''video'' \<and> video_ok f \<and> button_text b = fst (video_entry f)))"
proof (cases "category = ''audio''")
  case True
  with assms obtain c where c: "c \<in> set (audio_candidates i)"
    and b: "b = download_button (fst c) (snd c)"
    by (auto simp: candidate_menu_audio)
  from audio_candidates_source [OF c] obtain f
    where f: "f \<in> set (formats i)" "audio_ok f" "c = audio_entry f" by blast
  with b True show ?thesis
    by (auto simp: download_button_def audio_entry_def audio_ok_def intro!: bexI [of _ f])
next
  case False
  note na = this
  show ?thesis
  proof (cases "category = ''video''")
    case True
    with assms obtain c where c: "c \<in> set (video_candidates i)"
      and b: "b = download_button (fst c) (fst (snd c))"
      by (auto simp: candidate_menu_video)
    from video_candidates_source [OF c] obtain f
      where f: "f \<in> set (formats i)" "video_ok f" "c = video_entry f" by blast
    with b True show ?thesis
      by (auto simp: download_button_def video_entry_def video_ok_def intro!: bexI [of _ f])
  next
    case False
    with na assms show ?thesis by (simp add: candidate_menu_other)
  qed
qed

lemma candidate_menu_length: "length (candidate_menu i category) \<le> 5"
proof -
  consider "category = ''audio''" | "category = ''video''"
    | "category \<noteq> ''audio''" "category \<noteq> ''video''" by blast
  then show ?thesis
  proof cases
    case 1 then show ?thesis by (simp add: candidate_menu_audio audio_candidates_def)
  next
    case 2 then show ?thesis by (simp add: candidate_menu_video video_candidates_def)
  next
    case 3 then show ?thesis by (simp add: candidate_menu_other)
  qed
qed


lemma str_remove_absent: "\<not> sublist old s \<Longrightarrow> str_remove old s = s"
proof (induction old s rule: str_remove.induct)
  case (1 old)
  then show ?case by simp
next
  case (2 old c cs)
  from "2.prems" have np: "\<not> prefix old (c # cs)" and ns: "\<not> sublist old cs"
    by (auto simp: sublist_Cons_right)
  from np have "str_remove old (c # cs) = c # str_remove old cs" by simp
  moreover from np ns "2.IH"(2) have "str_remove old cs = cs" by simp
  ultimately show ?case by simp
qed

lemma str_remove_leading:
  assumes "old \<noteq> []"
  shows "str_remove old (old @ s) = str_remove old s"
proof -
  from assms obtain c cs where o: "old = c # cs" by (cases old) auto
  have "str_remove old (c # (cs @ s)) = str_remove old (drop (length old) (c # (cs @ s)))"
    using assms o by (subst str_remove.simps(2)) simp
  with o show ?thesis by simp
qed

lemma lookup_platform_None:
  "lookup_platform t d = None \<longleftrightarrow> (\<forall>e \<in> set t. \<not> sublist (fst e) d)"
  by (induction t d rule: lookup_platform.induct) auto

lemma lookup_platform_Some:
  "lookup_platform t d = Some p \<longleftrightarrow>
     (\<exists>pre k post. t = pre @ (k, p) # post \<and> sublist k d
        \<and> (\<forall>e \<in> set pre. \<not> sublist (fst e) d))"
proof (induction t d rule: lookup_platform.induct)
  case (1 d)
  then show ?case by simp
next
  case (2 k n rest d)
  show ?case
  proof (cases "sublist k d")
    case True
    have "(n = p) \<longleftrightarrow> (\<exists>pre k' post. (k, n) # rest = pre @ (k', p) # post \<and> sublist k' d
        \<and> (\<forall>e \<in> set pre. \<not> sublist (fst e) d))"
    proof
      assume "n = p"
      with True have "(k, n) # rest = [] @ (k, p) # rest \<and> sublist k d
        \<and> (\<forall>e \<in> set []. \<not> sublist (fst e) d)" by simp
      then show "\<exists>pre k' post. (k, n) # rest = pre @ (k', p) # post \<and> sublist k' d
        \<and> (\<forall>e \<in> set pre. \<not> sublist (fst e) d)" by blast
    next
      assume "\<exists>pre k' post. (k, n) # rest = pre @ (k', p) # post \<and> sublist k' d
        \<and> (\<forall>e \<in> set pre. \<not> sublist (fst e) d)"
      then obtain pre k' post where eq: "(k, n) # rest = pre @ (k', p) # post"
        and np: "\<forall>e \<in> set pre. \<not> sublist (fst e) d" by blast
      show "n = p"
      proof (cases pre)
        case Nil with eq show ?thesis by simp
      next
        case (Cons a as)
        with eq have "a = (k, n)" by simp
        with Cons np True show ?thesis by simp
      qed
    qed
    with True show ?thesis by simp
  next
    case False
    have "(\<exists>pre k' post. rest = pre @ (k', p) # post \<and> sublist k' d
        \<and> (\<forall>e \<in> set pre. \<not> sublist (fst e) d))
      \<longleftrightarrow> (\<exists>pre k' post. (k, n) # rest = pre @ (k', p) # post \<and> sublist k' d
        \<and> (\<forall>e \<in> set pre. \<not> sublist (fst e) d))" (is "?L \<longleftrightarrow> ?R")
    proof
      assume ?L
      then obtain pre k' post where "rest = pre @ (k', p) # post" "sublist k' d"
        "\<forall>e \<in> set pre. \<not> sublist (fst e) d" by blast
      with False have "(k, n) # rest = ((k, n) # pre) @ (k', p) # post \<and> sublist k' d
        \<and> (\<forall>e \<in> set ((k, n) # pre). \<not> sublist (fst e) d)" by simp
      then show ?R by blast
    next
      assume ?R
      then obtain pre k' post where eq: "(k, n) # rest = pre @ (k', p) # post"
        and s: "sublist k' d" and np: "\<forall>e \<in> set pre. \<not> sublist (fst e) d" by blast
      show ?L
      proof (cases pre)
        case Nil with eq s False show ?thesis by simp
      next
        case (Cons a as)
        with eq have "rest = as @ (k', p) # post" by simp
        moreover from Cons np have "\<forall>e \<in> set as. \<not> sublist (fst e) d" by simp
        ultimately show ?thesis using s by blast
      qed
    qed
    with False 2 show ?thesis by simp
  qed
qed

text \<open>
  Claim C1. The candidate sequence is meant to be in descending order of the rank key,
  the bit rate for audio. For the six audio encodings of \<open>six_bitrates\<close>, all below the
  size limit, the audio menu is in descending order of the format identifier instead:
  its bit rates read 96, 192, 256, 64, 320, so the first candidate is not the one of
  320 and 64 comes before 320. (The video menu is in descending order of the height,
  see \<open>video_candidates_sorted\<close>.)
\<close>
theorem audio_menu_follows_format_id:
  "map (label_bitrate \<circ> button_text) (candidate_menu six_bitrates ''audio'')
     = [Some 96, Some 192, Some 256, Some 64, Some 320]"
  by code_simp

text \<open>
  Claim C3 as it is worded fails twice. With only a leading \<open>www.\<close> stripped, the
  network location \<open>x.www.com\<close> contains no configured substring, yet the classifier
  answers Twitter/X, because every occurrence of \<open>www.\<close> is removed. And on a URL that
  the parser refuses the classifier returns neither a platform nor "unsupported": the
  \<^verbatim>\<open>ValueError\<close> leaves it.
\<close>

theorem classify_inner_www_counterexample:
  "lib_urlparse_netloc example_lib ''https://x.www.com/a'' = Inr ''x.www.com''
   \<and> get_platform example_lib ''https://x.www.com/a'' = Inr (Some ''Twitter/X'')
   \<and> spec_classify example_lib ''x.www.com'' = None
   \<and> get_platform example_lib ''https://[youtube.com/x'' = Inl ValueError"
  by code_simp

text \<open>
  Claim C3, amended. Whatever the library answers: the classifier raises exactly when
  \<^verbatim>\<open>urlparse\<close> does; and when \<^verbatim>\<open>urlparse\<close> returns a network location, the classifier
  returns no platform exactly when that location, lower-cased by \<^verbatim>\<open>str.lower\<close> and with
  every occurrence of \<open>www.\<close> removed, contains none of the configured substrings, and
  it returns a name \<open>p\<close> exactly when \<open>p\<close> belongs to the first entry of the table
  whose substring that string contains.
\<close>

theorem get_platform_first_match:
  "(get_platform L u = Inl err \<longleftrightarrow> lib_urlparse_netloc L u = Inl err)
   \<and> (lib_urlparse_netloc L u = Inr netloc \<longrightarrow>
        (get_platform L u = Inr None \<longleftrightarrow>
           (\<forall>e \<in> set supported_platforms.
              \<not> sublist (fst e) (str_remove ''www.'' (lib_lower L netloc))))
      \<and> (get_platform L u = Inr (Some p) \<longleftrightarrow>
           (\<exists>pre k post. supported_platforms = pre @ (k, p) # post
              \<and> sublist k (str_remove ''www.'' (lib_lower L netloc))
              \<and> (\<forall>e \<in> set pre.
                    \<not> sublist (fst e) (str_remove ''www.'' (lib_lower L netloc))))))"
proof (cases "lib_urlparse_netloc L u")
  case (Inl a)
  then show ?thesis by (simp add: get_platform_def)
next
  case (Inr b)
  then show ?thesis
    by (simp add: get_platform_def lookup_platform_None lookup_platform_Some)
qed

theorem get_platform_first_match_witness:
  "lib_urlparse_netloc example_lib ''https://X.www.COM/a'' = Inr ''X.www.COM''
   \<and> get_platform example_lib ''https://X.www.COM/a'' = Inr (Some ''Twitter/X'')
   \<and> str_remove ''www.'' (lib_lower example_lib ''X.www.COM'') = ''x.com''
   \<and> (\<exists>pre k post. supported_platforms = pre @ (k, ''Twitter/X'') # post
         \<and> sublist k (str_remove ''www.'' (lib_lower example_lib ''X.www.COM'')))
   \<and> get_platform example_lib ''https://www.youtu.be/abc'' = Inr (Some ''YouTube'')
   \<and> get_platform example_lib ''https://vimeo.com/x'' = Inr None
   \<and> \<not> sublist ''x.com'' (str_remove ''www.'' (lib_lower example_lib ''vimeo.com''))
   \<and> get_platform example_lib ''https://[youtube.com/x'' = Inl ValueError"
proof -
  have n: "lib_urlparse_netloc example_lib ''https://X.www.COM/a'' = Inr ''X.www.COM''"
    "lib_urlparse_netloc example_lib ''https://vimeo.com/x'' = Inr ''vimeo.com''"
    "lib_urlparse_netloc example_lib ''https://[youtube.com/x'' = Inl ValueError"
    by code_simp+
  have x: "get_platform example_lib ''https://X.www.COM/a'' = Inr (Some ''Twitter/X'')"
    by code_simp
  have d: "str_remove ''www.'' (lib_lower example_lib ''X.www.COM'') = ''x.com''"
    by code_simp
  have y: "get_platform example_lib ''https://www.youtu.be/abc'' = Inr (Some ''YouTube'')"
    by code_simp
  have v: "get_platform example_lib ''https://vimeo.com/x'' = Inr None" by code_simp
  have m: "(''x.com'', ''Twitter/X'') \<in> set supported_platforms"
    by (simp add: supported_platforms_def)
  from x n(1)
    get_platform_first_match [of example_lib "''https://X.www.COM/a''" ValueError
                                 "''X.www.COM''" "''Twitter/X''"]
  have 1: "\<exists>pre k post. supported_platforms = pre @ (k, ''Twitter/X'') # post
         \<and> sublist k (str_remove ''www.'' (lib_lower example_lib ''X.www.COM''))"
    by blast
  from v n(2)
    get_platform_first_match [of example_lib "''https://vimeo.com/x''" ValueError
                                 "''vimeo.com''" "''YouTube''"]
  have "\<forall>e \<in> set supported_platforms.
          \<not> sublist (fst e) (str_remove ''www.'' (lib_lower example_lib ''vimeo.com''))"
    by blast
  with m have 2: "\<not> sublist ''x.com'' (str_remove ''www.'' (lib_lower example_lib ''vimeo.com''))"
    by fastforce
  from n(3)
    get_platform_first_match [of example_lib "''https://[youtube.com/x''" ValueError
                                 "[]" "''YouTube''"]
  have 3: "get_platform example_lib ''https://[youtube.com/x'' = Inl ValueError"
    by blast
  from n(1) x d y v 1 2 3 show ?thesis by blast
qed

text \<open>
  Claim C4. For every metadata and category the candidate menu has at most five
  entries; every entry comes from an encoding of the metadata whose size is known, not
  zero and at most \<open>MAX_FILE_SIZE\<close>, and shows that size; and the entry of an encoding
  without a size (neither \<open>filesize\<close> nor \<open>filesize_approx\<close>) is never in the menu.
\<close>
theorem candidate_menu_bounded:
  "length (candidate_menu i category) \<le> 5
   \<and> (\<forall>b \<in> set (candidate_menu i category).
        \<exists>f \<in> set (formats i).
          callback_data b = ''download_'' @ format_id f
          \<and> label_size (button_text b) = Some (filesize_of f)
          \<and> filesize_of f \<noteq> 0 \<and> filesize_of f \<le> MAX_FILE_SIZE)
   \<and> (\<forall>f. or_zero (filesize f) = 0 \<and> or_zero (filesize_approx f) = 0 \<longrightarrow>
          download_button (fst (audio_entry f)) (format_id f) \<notin> set (candidate_menu i category)
        \<and> download_button (fst (video_entry f)) (format_id f) \<notin> set (candidate_menu i category))"
proof (intro conjI ballI allI impI)
  show "length (candidate_menu i category) \<le> 5" by (rule candidate_menu_length)
next
  fix b assume "b \<in> set (candidate_menu i category)"
  from candidate_menu_source [OF this]
  show "\<exists>f \<in> set (formats i).
          callback_data b = ''download_'' @ format_id f
          \<and> label_size (button_text b) = Some (filesize_of f)
          \<and> filesize_of f \<noteq> 0 \<and> filesize_of f \<le> MAX_FILE_SIZE"
    by (auto simp: audio_entry_def video_entry_def)
next
  fix f :: format assume u: "or_zero (filesize f) = 0 \<and> or_zero (filesize_approx f) = 0"
  then have z: "filesize_of f = 0" by (simp add: filesize_of_def)
  show "download_button (fst (audio_entry f)) (format_id f) \<notin> set (candidate_menu i category)"
  proof
    assume "download_button (fst (audio_entry f)) (format_id f) \<in> set (candidate_menu i category)"
    from candidate_menu_source [OF this] z show False
      by (auto simp: audio_entry_def video_entry_def download_button_def)
  qed
  show "download_button (fst (video_entry f)) (format_id f) \<notin> set (candidate_menu i category)"
  proof
    assume "download_button (fst (video_entry f)) (format_id f) \<in> set (candidate_menu i category)"
    from candidate_menu_source [OF this] z show False
      by (auto simp: audio_entry_def video_entry_def download_button_def)
  qed
qed

theorem candidate_menu_bounded_witness:
  "length (candidate_menu mixed_videos ''video'') \<le> 5
   \<and> download_button (VideoLabel 720 ''MP4'' 52428800) ''22'' \<in> set (candidate_menu mixed_videos ''video'')
   \<and> (\<exists>f. f \<in> set (formats mixed_videos) \<and> filesize_of f = 52428800
          \<and> filesize_of f \<noteq> 0 \<and> filesize_of f \<le> MAX_FILE_SIZE)
   \<and> or_zero (filesize (video_fmt ''37'' (Some 1080) None None)) = 0
   \<and> download_button (fst (video_entry (video_fmt ''37'' (Some 1080) None None))) ''37''
        \<notin> set (candidate_menu mixed_videos ''video'')"
proof -
  let ?b = "download_button (VideoLabel 720 ''MP4'' 52428800) ''22''"
  let ?f = "video_fmt ''37'' (Some 1080) None None"
  note t = candidate_menu_bounded [of mixed_videos "''video''"]
  have m: "?b \<in> set (candidate_menu mixed_videos ''video'')" by code_simp
  have s: "label_size (button_text ?b) = Some 52428800" by (simp add: download_button_def)
  have u: "or_zero (filesize ?f) = 0 \<and> or_zero (filesize_approx ?f) = 0"
    by (simp add: video_fmt_def or_zero_def)
  have i: "format_id ?f = ''37''" by (simp add: video_fmt_def)
  from t have "length (candidate_menu mixed_videos ''video'') \<le> 5" by blast
  moreover from t m have "\<exists>f \<in> set (formats mixed_videos).
          label_size (button_text ?b) = Some (filesize_of f)
          \<and> filesize_of f \<noteq> 0 \<and> filesize_of f \<le> MAX_FILE_SIZE" by blast
  with s have "\<exists>f. f \<in> set (formats mixed_videos) \<and> filesize_of f = 52428800
          \<and> filesize_of f \<noteq> 0 \<and> filesize_of f \<le> MAX_FILE_SIZE" by auto
  moreover from t u i have "download_button (fst (video_entry ?f)) ''37''
        \<notin> set (candidate_menu mixed_videos ''video'')" by metis
  ultimately show ?thesis using m u by blast
qed

text \<open>
  Claim C9. Every entry of the video menu comes from an encoding with a video stream
  whose height is known and not zero, and shows that height; the entry of an encoding
  whose height is missing or zero is never in the video menu, whatever its size.
\<close>
theorem video_menu_requires_height:
  "(\<forall>b \<in> set (candidate_menu i ''video'').
      \<exists>f \<in> set (formats i).
        vcodec f \<noteq> Some ''none'' \<and> callback_data b = ''download_'' @ format_id f
        \<and> (\<exists>h. height f = Some h \<and> h \<noteq> 0 \<and> label_height (button_text b) = Some h))
   \<and> (\<forall>f. height f = None \<or> height f = Some 0 \<longrightarrow>
          download_button (fst (video_entry f)) (format_id f) \<notin> set (candidate_menu i ''video''))"
proof (intro conjI ballI allI impI)
  fix b assume "b \<in> set (candidate_menu i ''video'')"
  from candidate_menu_source [OF this]
  obtain f where f: "f \<in> set (formats i)" "callback_data b = ''download_'' @ format_id f"
    "video_ok f" "button_text b = fst (video_entry f)" by auto
  from f(3) obtain h where "height f = Some h" "h \<noteq> 0"
    by (cases "height f") (auto simp: video_ok_def or_zero_def)
  with f show "\<exists>f \<in> set (formats i).
        vcodec f \<noteq> Some ''none'' \<and> callback_data b = ''download_'' @ format_id f
        \<and> (\<exists>h. height f = Some h \<and> h \<noteq> 0 \<and> label_height (button_text b) = Some h)"
    by (auto simp: video_ok_def video_entry_def or_zero_def intro!: bexI [of _ f])
next
  fix f :: format assume "height f = None \<or> height f = Some 0"
  then have z: "or_zero (height f) = 0" by (auto simp: or_zero_def)
  show "download_button (fst (video_entry f)) (format_id f) \<notin> set (candidate_menu i ''video'')"
  proof
    assume "download_button (fst (video_entry f)) (format_id f) \<in> set (candidate_menu i ''video'')"
    from candidate_menu_source [OF this] z show False
      by (auto simp: video_entry_def video_ok_def download_button_def)
  qed
qed

theorem video_menu_requires_height_witness:
  "download_button (VideoLabel 360 ''MP4'' 2048) ''18'' \<in> set (candidate_menu mixed_videos ''video'')
   \<and> (\<exists>f h. f \<in> set (formats mixed_videos) \<and> format_id f = ''18'' \<and> height f = Some h \<and> h \<noteq> 0)
   \<and> height (video_fmt ''hls'' None (Some 4096) None) = None
   \<and> filesize_of (video_fmt ''hls'' None (Some 4096) None) = 4096
   \<and> download_button (fst (video_entry (video_fmt ''hls'' None (Some 4096) None))) ''hls''
        \<notin> set (candidate_menu mixed_videos ''video'')"
proof -
  let ?b = "download_button (VideoLabel 360 ''MP4'' 2048) ''18''"
  let ?f = "video_fmt ''hls'' None (Some 4096) None"
  note t = video_menu_requires_height [of mixed_videos]
  have m: "?b \<in> set (candidate_menu mixed_videos ''video'')" by code_simp
  have c: "callback_data ?b = ''download_'' @ ''18''" by (simp add: download_button_def)
  have h: "height ?f = None" "format_id ?f = ''hls''" "filesize_of ?f = 4096"
    by (simp_all add: video_fmt_def filesize_of_def or_zero_def)
  from t m have "\<exists>f \<in> set (formats mixed_videos). callback_data ?b = ''download_'' @ format_id f
        \<and> (\<exists>h. height f = Some h \<and> h \<noteq> 0)" by blast
  with c have 1: "\<exists>f h. f \<in> set (formats mixed_videos) \<and> format_id f = ''18''
        \<and> height f = Some h \<and> h \<noteq> 0" by auto
  from t h have 2: "download_button (fst (video_entry ?f)) ''hls''
        \<notin> set (candidate_menu mixed_videos ''video'')" by metis
  from m 1 2 h show ?thesis by blast
qed

section \<open>Properties of the handlers\<close>

lemma download_prefix_cases:
  assumes "prefix ''download_'' data"
  shows "data \<noteq> ''cancel''" "data \<noteq> ''back''" "\<not> prefix ''category_'' data"
  using assms by (auto simp: prefix_def)

lemma handle_callback_download:
  assumes "user_sessions w uid = Some s" "prefix ''download_'' data" "\<not> raises e AnswerCallback"
  shows "handle_callback e w uid data
           = after_answer (download_and_send e w uid s (str_remove ''download_'' data))"
  using assms download_prefix_cases [OF assms(2)]
  by (simp add: handle_callback_def)

lemma handle_callback_no_session:
  assumes "user_sessions w uid = None" "data \<noteq> ''cancel''"
  shows "handle_callback e w uid data =
           (if raises e AnswerCallback
            then \<lparr>trace = [Answer], raised = True, final = w\<rparr>
            else \<lparr>trace = [Answer, EditText MsgSessionExpired],
                  raised = raises e EditExpired, final = w\<rparr>)"
  using assms by (simp add: handle_callback_def)

lemma guarded_trace:
  "\<exists>mid. fst (download_except e (download_body e s fid d)) = DownloadMedia (url s) fid d # mid
         \<and> (\<forall>x. RmTree x \<notin> set mid) \<and> (\<forall>u. DelSession u \<notin> set mid)"
  by (auto simp: download_except_def download_body_def seq_def call_def split: option.splits)

lemma finally_block_eq:
  "finally_block uid d (w\<lparr>tmp_dirs := insert d (tmp_dirs w)\<rparr>) =
     (RmTree d # (if uid \<in> dom (user_sessions w) then [DelSession uid] else []),
      \<lparr>user_sessions = (user_sessions w)(uid := None), tmp_dirs = tmp_dirs w - {d}\<rparr>)"
  by (auto simp: finally_block_def cleanup_temp_def clear_session_def Let_def fun_upd_idem_iff domIff)

lemma download_and_send_entered:
  assumes "\<not> raises e EditDownloading" "mkdtemp e = Some d"
  shows "download_and_send e w uid s fid =
     \<lparr>trace = [EditText MsgDownloading, MkDTemp d]
              @ fst (download_except e (download_body e s fid d))
              @ RmTree d # (if uid \<in> dom (user_sessions w) then [DelSession uid] else []),
      raised = snd (download_except e (download_body e s fid d)),
      final = \<lparr>user_sessions = (user_sessions w)(uid := None), tmp_dirs = tmp_dirs w - {d}\<rparr>\<rparr>"
  using assms by (simp add: download_and_send_def Let_def finally_block_eq)


text \<open>
  Before the guarded block nothing is cleaned up: when the progress message raises, or
  \<^verbatim>\<open>mkdtemp\<close> does, no directory has been created and the state is as it was.
\<close>

lemma download_and_send_not_entered:
  assumes "raises e EditDownloading \<or> mkdtemp e = None"
  shows "download_and_send e w uid s fid
           = \<lparr>trace = [EditText MsgDownloading], raised = True, final = w\<rparr>"
  using assms by (auto simp: download_and_send_def)

text \<open>
  Claim C2 as it is worded fails. The session of user 7 has just been created by
  \<open>handle_url\<close>, so the category menu is on screen and no category has been chosen;
  a press carrying \<open>download_18\<close> starts the download all the same.
\<close>

theorem download_press_before_category_counterexample:
  "user_sessions (final (handle_url example_lib quiet_env empty_world 7 ''https://youtu.be/abc'')) 7
     = Some clip_session
   \<and> DownloadMedia ''https://youtu.be/abc'' ''18'' ''/tmp/tmpa''
       \<in> set (trace (handle_callback quiet_env
                        (final (handle_url example_lib quiet_env empty_world 7
                                  ''https://youtu.be/abc''))
                        7 ''download_18''))"
  by code_simp

text \<open>
  Claim C2, amended. A session does not record which menu is on screen. Once the
  callback is acknowledged, a \<open>download_\<close> press is refused, with the session-expired
  message and no change of state, when the user has no session. When the user has one,
  whatever menu was shown last, the press starts a download if the channel accepts the
  progress message and the temporary directory can be created, and starts none and
  leaves the state as it was otherwise. The format that is downloaded is the callback
  data with every occurrence of \<open>download_\<close> removed; that is the token of the button
  whenever the token does not itself contain \<open>download_\<close>.
\<close>

theorem download_press_ignores_menu:
  assumes "prefix ''download_'' data" and "\<not> raises e AnswerCallback"
  shows "(user_sessions w uid = None \<longrightarrow>
            trace (handle_callback e w uid data) = [Answer, EditText MsgSessionExpired]
            \<and> final (handle_callback e w uid data) = w)
       \<and> (\<forall>s d. user_sessions w uid = Some s \<and> \<not> raises e EditDownloading
                   \<and> mkdtemp e = Some d \<longrightarrow>
            DownloadMedia (url s) (str_remove ''download_'' data) d
              \<in> set (trace (handle_callback e w uid data)))
       \<and> (\<forall>s. user_sessions w uid = Some s
                 \<and> (raises e EditDownloading \<or> mkdtemp e = None) \<longrightarrow>
            trace (handle_callback e w uid data) = [Answer, EditText MsgDownloading]
            \<and> final (handle_callback e w uid data) = w)
       \<and> (\<forall>tok. data = ''download_'' @ tok \<and> \<not> sublist ''download_'' tok \<longrightarrow>
            str_remove ''download_'' data = tok)"
proof -
  have 1: "user_sessions w uid = None \<longrightarrow>
            trace (handle_callback e w uid data) = [Answer, EditText MsgSessionExpired]
            \<and> final (handle_callback e w uid data) = w"
  proof
    assume n: "user_sessions w uid = None"
    from assms(1) have "data \<noteq> ''cancel''" by (rule download_prefix_cases)
    with n assms(2)
    show "trace (handle_callback e w uid data) = [Answer, EditText MsgSessionExpired]
          \<and> final (handle_callback e w uid data) = w"
      by (simp add: handle_callback_no_session)
  qed
  have 2: "DownloadMedia (url s) (str_remove ''download_'' data) d
              \<in> set (trace (handle_callback e w uid data))"
    if a: "user_sessions w uid = Some s \<and> \<not> raises e EditDownloading \<and> mkdtemp e = Some d"
    for s d
  proof -
    obtain mid where
      "fst (download_except e (download_body e s (str_remove ''download_'' data) d))
         = DownloadMedia (url s) (str_remove ''download_'' data) d # mid"
      using guarded_trace by blast
    with a assms show ?thesis
      by (simp add: handle_callback_download download_and_send_entered after_answer_def)
  qed
  have 3: "trace (handle_callback e w uid data) = [Answer, EditText MsgDownloading]
            \<and> final (handle_callback e w uid data) = w"
    if a: "user_sessions w uid = Some s \<and> (raises e EditDownloading \<or> mkdtemp e = None)"
    for s
  proof -
    from a have "download_and_send e w uid s (str_remove ''download_'' data)
           = \<lparr>trace = [EditText MsgDownloading], raised = True, final = w\<rparr>"
      by (intro download_and_send_not_entered) simp
    with a assms show ?thesis
      by (simp add: handle_callback_download after_answer_def)
  qed
  have 4: "str_remove ''download_'' data = tok"
    if a: "data = ''download_'' @ tok \<and> \<not> sublist ''download_'' tok" for tok
  proof -
    have "str_remove ''download_'' (''download_'' @ tok) = str_remove ''download_'' tok"
      by (rule str_remove_leading) simp
    with a show ?thesis by (simp add: str_remove_absent)
  qed
  from 1 2 3 4 show ?thesis by blast
qed

theorem download_press_ignores_menu_witness:
  "user_sessions world7 7 = Some clip_session
   \<and> DownloadMedia (url clip_session) ''18'' ''/tmp/tmpa''
       \<in> set (trace (handle_callback quiet_env world7 7 ''download_18''))
   \<and> mkdtemp (quiet_env\<lparr>mkdtemp := None\<rparr>) = None
   \<and> trace (handle_callback (quiet_env\<lparr>mkdtemp := None\<rparr>) world7 7 ''download_18'')
       = [Answer, EditText MsgDownloading]
   \<and> user_sessions empty_world 7 = None
   \<and> trace (handle_callback quiet_env empty_world 7 ''download_18'')
       = [Answer, EditText MsgSessionExpired]"
proof -
  let ?e = "quiet_env\<lparr>mkdtemp := None\<rparr>"
  have p: "prefix ''download_'' ''download_18''" by simp
  have q: "\<not> raises quiet_env AnswerCallback" "\<not> raises quiet_env EditDownloading"
    "mkdtemp quiet_env = Some ''/tmp/tmpa''"
    by (simp_all add: quiet_env_def)
  have r: "\<not> raises ?e AnswerCallback" "mkdtemp ?e = None"
    by (simp_all add: quiet_env_def)
  have s: "user_sessions world7 7 = Some clip_session" by (simp add: world7_def)
  have n: "user_sessions empty_world 7 = None" by (simp add: empty_world_def)
  have k: "''download_18'' = ''download_'' @ ''18'' \<and> \<not> sublist ''download_'' ''18''"
    by code_simp
  note t = download_press_ignores_menu [OF p q(1), of world7 7]
  from t have "\<forall>tok. ''download_18'' = ''download_'' @ tok \<and> \<not> sublist ''download_'' tok \<longrightarrow>
            str_remove ''download_'' ''download_18'' = tok"
    by (rule conjunct2 [OF conjunct2 [OF conjunct2]])
  from this [rule_format, of "''18''", OF k]
  have f: "str_remove ''download_'' ''download_18'' = ''18''" .
  from t have "\<forall>s d. user_sessions world7 7 = Some s \<and> \<not> raises quiet_env EditDownloading
                   \<and> mkdtemp quiet_env = Some d \<longrightarrow>
            DownloadMedia (url s) (str_remove ''download_'' ''download_18'') d
              \<in> set (trace (handle_callback quiet_env world7 7 ''download_18''))"
    by (rule conjunct1 [OF conjunct2])
  from this [rule_format, of clip_session "''/tmp/tmpa''"] s q(2) q(3)
  have "DownloadMedia (url clip_session) (str_remove ''download_'' ''download_18'') ''/tmp/tmpa''
       \<in> set (trace (handle_callback quiet_env world7 7 ''download_18''))" by blast
  then have 1: "DownloadMedia (url clip_session) ''18'' ''/tmp/tmpa''
       \<in> set (trace (handle_callback quiet_env world7 7 ''download_18''))"
    by (simp only: f)
  from download_press_ignores_menu [OF p r(1), of world7 7]
  have "\<forall>s. user_sessions world7 7 = Some s
                 \<and> (raises ?e EditDownloading \<or> mkdtemp ?e = None) \<longrightarrow>
            trace (handle_callback ?e world7 7 ''download_18'') = [Answer, EditText MsgDownloading]
            \<and> final (handle_callback ?e world7 7 ''download_18'') = world7"
    by (rule conjunct1 [OF conjunct2 [OF conjunct2]])
  from this [rule_format, of clip_session] s r(2)
  have 2: "trace (handle_callback ?e world7 7 ''download_18'')
             = [Answer, EditText MsgDownloading]" by blast
  from download_press_ignores_menu [OF p q(1), of empty_world 7]
  have "user_sessions empty_world 7 = None \<longrightarrow>
            trace (handle_callback quiet_env empty_world 7 ''download_18'')
              = [Answer, EditText MsgSessionExpired]
            \<and> final (handle_callback quiet_env empty_world 7 ''download_18'') = empty_world"
    by (rule conjunct1)
  from this [rule_format, OF n]
  have 3: "trace (handle_callback quiet_env empty_world 7 ''download_18'')
       = [Answer, EditText MsgSessionExpired]" by (rule conjunct1)
  from s r(2) n 1 2 3 show ?thesis by blast
qed

text \<open>
  Claim C5. For a user without a session, whether none was ever started or the last one
  was cancelled, every button press other than cancel (a category, back, a download)
  leaves the state as it was, starts no download, and is answered with the
  session-expired message.
\<close>
theorem no_session_expired:
  assumes "user_sessions w uid = None
           \<or> (\<exists>e0 w0. \<not> raises e0 AnswerCallback \<and> w = final (handle_callback e0 w0 uid ''cancel''))"
    and "data \<noteq> ''cancel''"
  shows "final (handle_callback e w uid data) = w
       \<and> (\<forall>u a b. DownloadMedia u a b \<notin> set (trace (handle_callback e w uid data)))
       \<and> (\<not> raises e AnswerCallback \<longrightarrow>
            trace (handle_callback e w uid data) = [Answer, EditText MsgSessionExpired])"
proof -
  from assms(1) have "user_sessions w uid = None"
    by (auto simp: handle_callback_def clear_session_def Let_def domIff)
  with assms(2) show ?thesis by (simp add: handle_callback_no_session)
qed

theorem no_session_expired_witness:
  "user_sessions empty_world 7 = None
   \<and> final (handle_callback quiet_env empty_world 7 ''category_audio'') = empty_world
   \<and> trace (handle_callback quiet_env empty_world 7 ''category_audio'')
       = [Answer, EditText MsgSessionExpired]
   \<and> user_sessions world7 7 \<noteq> None
   \<and> trace (handle_callback quiet_env (final (handle_callback quiet_env world7 7 ''cancel''))
              7 ''back'') = [Answer, EditText MsgSessionExpired]
   \<and> trace (handle_callback quiet_env (final (handle_callback quiet_env world7 7 ''cancel''))
              7 ''download_18'') = [Answer, EditText MsgSessionExpired]"
proof -
  have q: "\<not> raises quiet_env AnswerCallback" by (simp add: quiet_env_def)
  have n: "user_sessions empty_world 7 = None" by (simp add: empty_world_def)
  have s: "user_sessions world7 7 \<noteq> None" by (simp add: world7_def)
  let ?w = "final (handle_callback quiet_env world7 7 ''cancel'')"
  have c: "user_sessions ?w 7 = None
           \<or> (\<exists>e0 w0. \<not> raises e0 AnswerCallback \<and> ?w = final (handle_callback e0 w0 7 ''cancel''))"
    using q by blast
  have d: "''category_audio'' \<noteq> ''cancel''" "''back'' \<noteq> ''cancel''" "''download_18'' \<noteq> ''cancel''"
    by simp_all
  from no_session_expired [OF disjI1 [OF n] d(1), of quiet_env] q
  have 1: "final (handle_callback quiet_env empty_world 7 ''category_audio'') = empty_world
     \<and> trace (handle_callback quiet_env empty_world 7 ''category_audio'')
       = [Answer, EditText MsgSessionExpired]" by blast
  from no_session_expired [OF c d(2), of quiet_env] q
  have 2: "trace (handle_callback quiet_env ?w 7 ''back'') = [Answer, EditText MsgSessionExpired]"
    by blast
  from no_session_expired [OF c d(3), of quiet_env] q
  have 3: "trace (handle_callback quiet_env ?w 7 ''download_18'')
             = [Answer, EditText MsgSessionExpired]" by blast
  from n s 1 2 3 show ?thesis by blast
qed

text \<open>
  Claim C6 as it is worded fails for the cancel operations. After a completed download
  the session of user 7 is gone; the cancel button is then answered with the
  cancellation message and the cancel command with "No operation to cancel", neither
  with the session-expired message.
\<close>
theorem cancel_after_download_counterexample:
  "user_sessions (final (handle_callback quiet_env world7 7 ''download_18'')) 7 = None
   \<and> trace (handle_callback quiet_env
              (final (handle_callback quiet_env world7 7 ''download_18'')) 7 ''cancel'')
       = [Answer, EditText MsgCancelled]
   \<and> trace (cancel_operation quiet_env
              (final (handle_callback quiet_env world7 7 ''download_18'')) 7)
       = [ReplyText MsgNothingToCancel]"
  by code_simp

text \<open>
  Claim C6, amended. After a download attempt that has reached the guarded block (the
  progress message was accepted and the temporary directory created), whatever happens
  inside it, the user has no session: every later button press other than cancel is
  answered with the session-expired message and changes nothing, and the cancel button
  is answered with the cancellation message.
\<close>
theorem download_attempt_destroys_session:
  assumes "user_sessions w uid = Some s" and "prefix ''download_'' data"
    and "\<not> raises e AnswerCallback" and "\<not> raises e EditDownloading" and "mkdtemp e = Some d"
  shows "user_sessions (final (handle_callback e w uid data)) uid = None
       \<and> (\<forall>e' data'. data' \<noteq> ''cancel'' \<and> \<not> raises e' AnswerCallback \<longrightarrow>
            trace (handle_callback e' (final (handle_callback e w uid data)) uid data')
              = [Answer, EditText MsgSessionExpired]
            \<and> final (handle_callback e' (final (handle_callback e w uid data)) uid data')
              = final (handle_callback e w uid data))
       \<and> (\<forall>e'. \<not> raises e' AnswerCallback \<longrightarrow>
            trace (handle_callback e' (final (handle_callback e w uid data)) uid ''cancel'')
              = [Answer, EditText MsgCancelled])"
proof -
  let ?w = "final (handle_callback e w uid data)"
  from assms have n: "user_sessions ?w uid = None"
    by (simp add: handle_callback_download download_and_send_entered after_answer_def)
  then have "\<forall>e'. \<not> raises e' AnswerCallback \<longrightarrow>
            trace (handle_callback e' ?w uid ''cancel'') = [Answer, EditText MsgCancelled]"
    by (simp add: handle_callback_def clear_session_def domIff)
  with n show ?thesis by (simp add: handle_callback_no_session)
qed

theorem download_attempt_destroys_session_witness:
  "user_sessions world7 7 = Some clip_session
   \<and> raises failing_env SendFile
   \<and> user_sessions (final (handle_callback failing_env world7 7 ''download_18'')) 7 = None
   \<and> trace (handle_callback quiet_env
              (final (handle_callback failing_env world7 7 ''download_18'')) 7 ''category_video'')
       = [Answer, EditText MsgSessionExpired]
   \<and> trace (handle_callback quiet_env
              (final (handle_callback failing_env world7 7 ''download_18'')) 7 ''cancel'')
       = [Answer, EditText MsgCancelled]"
proof -
  have s: "user_sessions world7 7 = Some clip_session" by (simp add: world7_def)
  have p: "prefix ''download_'' ''download_18''" by simp
  have f: "\<not> raises failing_env AnswerCallback" "\<not> raises failing_env EditDownloading"
    "mkdtemp failing_env = Some ''/tmp/tmpa''" "raises failing_env SendFile"
    by (simp_all add: failing_env_def quiet_env_def)
  have q: "\<not> raises quiet_env AnswerCallback" by (simp add: quiet_env_def)
  have c: "''category_video'' \<noteq> ''cancel''" by simp
  note t = download_attempt_destroys_session [OF s p f(1) f(2) f(3)]
  from t have 1: "user_sessions (final (handle_callback failing_env world7 7 ''download_18'')) 7 = None"
    by blast
  from t have a: "\<forall>e' data'. data' \<noteq> ''cancel'' \<and> \<not> raises e' AnswerCallback \<longrightarrow>
            trace (handle_callback e' (final (handle_callback failing_env world7 7 ''download_18''))
                     7 data') = [Answer, EditText MsgSessionExpired]
            \<and> final (handle_callback e' (final (handle_callback failing_env world7 7 ''download_18''))
                     7 data') = final (handle_callback failing_env world7 7 ''download_18'')"
    by (rule conjunct1 [OF conjunct2])
  from t have b: "\<forall>e'. \<not> raises e' AnswerCallback \<longrightarrow>
            trace (handle_callback e' (final (handle_callback failing_env world7 7 ''download_18''))
                     7 ''cancel'') = [Answer, EditText MsgCancelled]"
    by (rule conjunct2 [OF conjunct2])
  from a [rule_format, of "''category_video''" quiet_env] q c
  have 2: "trace (handle_callback quiet_env
              (final (handle_callback failing_env world7 7 ''download_18'')) 7 ''category_video'')
       = [Answer, EditText MsgSessionExpired]" by simp
  from b [rule_format, of quiet_env] q
  have 3: "trace (handle_callback quiet_env
              (final (handle_callback failing_env world7 7 ''download_18'')) 7 ''cancel'')
       = [Answer, EditText MsgCancelled]" by simp
  from s f(4) 1 2 3 show ?thesis by blast
qed

text \<open>
  Claim C7. In every run of \<open>download_and_send\<close> that creates the temporary directory,
  the directory is created before the download starts, it is removed after the guarded
  block on every path through it, nothing in between removes a directory or deletes a
  session, the removal comes before the deletion of the session, and at the end the
  directory no longer exists and the user has no session.
\<close>
theorem temp_dir_removed_before_session:
  assumes "\<not> raises e EditDownloading" and "mkdtemp e = Some d"
  shows "\<exists>mid. trace (download_and_send e w uid s fid)
                 = [EditText MsgDownloading, MkDTemp d, DownloadMedia (url s) fid d] @ mid
                   @ [RmTree d] @ (if uid \<in> dom (user_sessions w) then [DelSession uid] else [])
              \<and> (\<forall>x. RmTree x \<notin> set mid) \<and> (\<forall>u. DelSession u \<notin> set mid)
              \<and> d \<notin> tmp_dirs (final (download_and_send e w uid s fid))
              \<and> user_sessions (final (download_and_send e w uid s fid)) uid = None"
proof -
  obtain mid where m: "fst (download_except e (download_body e s fid d))
                         = DownloadMedia (url s) fid d # mid"
    "\<forall>x. RmTree x \<notin> set mid" "\<forall>u. DelSession u \<notin> set mid"
    using guarded_trace by blast
  with assms have "trace (download_and_send e w uid s fid)
                 = [EditText MsgDownloading, MkDTemp d, DownloadMedia (url s) fid d] @ mid
                   @ [RmTree d] @ (if uid \<in> dom (user_sessions w) then [DelSession uid] else [])
              \<and> (\<forall>x. RmTree x \<notin> set mid) \<and> (\<forall>u. DelSession u \<notin> set mid)
              \<and> d \<notin> tmp_dirs (final (download_and_send e w uid s fid))
              \<and> user_sessions (final (download_and_send e w uid s fid)) uid = None"
    by (simp add: download_and_send_entered)
  then show ?thesis by blast
qed

theorem temp_dir_removed_before_session_witness:
  "raises failing_env SendFile
   \<and> (\<exists>mid. trace (download_and_send failing_env world7 7 clip_session ''18'')
               = [EditText MsgDownloading, MkDTemp ''/tmp/tmpa'',
                  DownloadMedia (url clip_session) ''18'' ''/tmp/tmpa''] @ mid
                 @ [RmTree ''/tmp/tmpa'', DelSession 7])
   \<and> ''/tmp/tmpa'' \<notin> tmp_dirs (final (download_and_send failing_env world7 7 clip_session ''18''))"
proof -
  have f: "\<not> raises failing_env EditDownloading" "mkdtemp failing_env = Some ''/tmp/tmpa''"
    "raises failing_env SendFile"
    by (simp_all add: failing_env_def quiet_env_def)
  have s: "7 \<in> dom (user_sessions world7)" by (simp add: world7_def)
  from temp_dir_removed_before_session [OF f(1) f(2), of world7 7 clip_session "''18''"] s f(3)
  show ?thesis by auto
qed

text \<open>
  Claim C8. When the downloaded file is larger than \<open>MAX_FILE_SIZE\<close>, the file is
  neither opened nor sent as audio or video, the too-large message is issued, and at the
  end the user has no session and the temporary directory is gone.
\<close>
theorem oversize_not_delivered:
  assumes "\<not> raises e EditDownloading" and "mkdtemp e = Some d"
    and "download_media e = Some fp" and "fp \<noteq> []" and "path_exists e"
    and "getsize e = Some sz" and "MAX_FILE_SIZE < sz"
  shows "(\<forall>p t c. ReplyAudio p t c \<notin> set (trace (download_and_send e w uid s fid)))
       \<and> (\<forall>p t c. ReplyVideo p t c \<notin> set (trace (download_and_send e w uid s fid)))
       \<and> (\<forall>p. OpenFile p \<notin> set (trace (download_and_send e w uid s fid)))
       \<and> EditText (MsgTooLarge sz) \<in> set (trace (download_and_send e w uid s fid))
       \<and> user_sessions (final (download_and_send e w uid s fid)) uid = None
       \<and> d \<notin> tmp_dirs (final (download_and_send e w uid s fid))"
proof -
  from assms(3-7) have "fst (download_except e (download_body e s fid d)) =
      [DownloadMedia (url s) fid d, GetSize fp, EditText (MsgTooLarge sz)]
      @ (if raises e EditTooLarge then [EditText MsgDownloadFailed] else [])"
    by (simp add: download_except_def download_body_def seq_def call_def)
  with assms(1,2) show ?thesis
    by (simp add: download_and_send_entered)
qed

theorem oversize_not_delivered_witness:
  "getsize oversize_env = Some (MAX_FILE_SIZE + 1)
   \<and> EditText (MsgTooLarge (MAX_FILE_SIZE + 1))
       \<in> set (trace (download_and_send oversize_env world7 7 clip_session ''18''))
   \<and> ReplyVideo ''/tmp/tmpa/Clip.mp4'' ''Clip'' ''YouTube''
       \<notin> set (trace (download_and_send oversize_env world7 7 clip_session ''18''))
   \<and> user_sessions (final (download_and_send oversize_env world7 7 clip_session ''18'')) 7 = None"
proof -
  have o: "\<not> raises oversize_env EditDownloading" "mkdtemp oversize_env = Some ''/tmp/tmpa''"
    "download_media oversize_env = Some ''/tmp/tmpa/Clip.mp4''" "''/tmp/tmpa/Clip.mp4'' \<noteq> []"
    "path_exists oversize_env" "getsize oversize_env = Some (MAX_FILE_SIZE + 1)"
    "MAX_FILE_SIZE < MAX_FILE_SIZE + 1"
    by (simp_all add: oversize_env_def quiet_env_def)
  from oversize_not_delivered [OF o, of world7 7 clip_session "''18''"] o(6)
  show ?thesis by blast
qed

text \<open>
  Claim C10. The cancel button is never answered with the session-expired message. Once
  the callback is acknowledged it issues the cancellation message, deletes the entry of
  the pressing user and no other, and leaves the state as it was when that user had no
  session.
\<close>
theorem cancel_button_never_expired:
  "EditText MsgSessionExpired \<notin> set (trace (handle_callback e w uid ''cancel''))
   \<and> (\<not> raises e AnswerCallback \<longrightarrow>
        trace (handle_callback e w uid ''cancel'')
          = Answer # (if uid \<in> dom (user_sessions w) then [DelSession uid] else [])
              @ [EditText MsgCancelled]
        \<and> raised (handle_callback e w uid ''cancel'') = raises e EditCancelled
        \<and> user_sessions (final (handle_callback e w uid ''cancel''))
            = (user_sessions w)(uid := None)
        \<and> tmp_dirs (final (handle_callback e w uid ''cancel'')) = tmp_dirs w
        \<and> (user_sessions w uid = None \<longrightarrow> final (handle_callback e w uid ''cancel'') = w))"
  by (auto simp: handle_callback_def clear_session_def Let_def domIff)

theorem cancel_button_never_expired_witness:
  "user_sessions empty_world 7 = None
   \<and> trace (handle_callback quiet_env empty_world 7 ''cancel'') = [Answer, EditText MsgCancelled]
   \<and> final (handle_callback quiet_env empty_world 7 ''cancel'') = empty_world
   \<and> user_sessions world7 7 = Some clip_session
   \<and> trace (handle_callback quiet_env world7 7 ''cancel'')
       = [Answer, DelSession 7, EditText MsgCancelled]
   \<and> user_sessions (final (handle_callback quiet_env world7 7 ''cancel''))
       = (user_sessions world7)(7 := None)"
proof -
  have q: "\<not> raises quiet_env AnswerCallback" by (simp add: quiet_env_def)
  have n: "user_sessions empty_world 7 = None" "7 \<notin> dom (user_sessions empty_world)"
    by (simp_all add: empty_world_def)
  have s: "user_sessions world7 7 = Some clip_session" "7 \<in> dom (user_sessions world7)"
    by (simp_all add: world7_def)
  from cancel_button_never_expired [of quiet_env empty_world 7] q n
  have 1: "trace (handle_callback quiet_env empty_world 7 ''cancel'') = [Answer, EditText MsgCancelled]
     \<and> final (handle_callback quiet_env empty_world 7 ''cancel'') = empty_world" by simp
  from cancel_button_never_expired [of quiet_env world7 7] q s
  have 2: "trace (handle_callback quiet_env world7 7 ''cancel'')
       = [Answer, DelSession 7, EditText MsgCancelled]
     \<and> user_sessions (final (handle_callback quiet_env world7 7 ''cancel''))
       = (user_sessions world7)(7 := None)" by simp
  from n s 1 2 show ?thesis by blast
qed

end
